theory Spec2Isabelle
  imports Complex_Main
begin

section \<open>Conventions of the embedding\<close>

text \<open>
  The theory embeds \<^verbatim>\<open>src/engine.py\<close>. A Python object that is only read by the
  method under study is a record passed by value; objects that are reached through
  references and mutated (UI elements, the entities of a scene) live in an explicit
  store indexed by a reference of type \<open>nat\<close>. An exception is a value \<open>Inl e\<close> of a
  sum type. Services of \<^verbatim>\<open>pygame\<close> are parameters of the model. Field \<^verbatim>\<open>f\<close> of
  class \<^verbatim>\<open>Entity\<close> is the record field \<open>e_f\<close>, since \<open>x\<close> and \<open>y\<close> cannot be
  constants.

  Numbers. A field that holds a Python number has the type \<open>real\<close>, the value of
  the finite float or of the int, where the methods under study only store it, compare
  it or truncate it (the sprite, the UI), and where the arithmetic is idealised because
  no branch of the method depends on a computed value (the physics step, the layout).
  Where the value of a sum, product or root decides a branch or an integer (the
  animation's accumulator, the circle test, the corner of a bounding rectangle), the
  numbers have an abstract type \<open>'v\<close> and Python's arithmetic on them is a parameter
  of the model, so that the definitions follow ints and floats alike, rounding,
  infinities and \<^verbatim>\<open>OverflowError\<close> included.
\<close>

datatype py_error =
    NotImplementedError
  | ZeroDivisionError
  | KeyError
  | IndexError
  | ValueError
  | TypeError
  | OverflowError

text \<open>Statements in sequence: the first exception ends the run.\<close>

fun bind_err :: "py_error + 'a \<Rightarrow> ('a \<Rightarrow> py_error + 'b) \<Rightarrow> py_error + 'b" where
  "bind_err (Inl err) f = Inl err"
| "bind_err (Inr v) f = f v"

text \<open>
  Python's arithmetic on the numbers \<open>'v\<close>: the value of an int literal, the operators
  \<^verbatim>\<open>+\<close>, \<^verbatim>\<open>-\<close>, \<^verbatim>\<open>*\<close>, \<^verbatim>\<open>/\<close> (which raise when an int operand is too large
  for a float, and \<^verbatim>\<open>/\<close> on a zero divisor), \<^verbatim>\<open>math.sqrt\<close>, and the comparisons
  \<^verbatim>\<open><\<close> and \<^verbatim>\<open>>=\<close>.
\<close>

record 'v py_arith =
  num_int :: "int \<Rightarrow> 'v"
  num_add :: "'v \<Rightarrow> 'v \<Rightarrow> py_error + 'v"
  num_sub :: "'v \<Rightarrow> 'v \<Rightarrow> py_error + 'v"
  num_mul :: "'v \<Rightarrow> 'v \<Rightarrow> py_error + 'v"
  num_truediv :: "'v \<Rightarrow> 'v \<Rightarrow> py_error + 'v"
  math_sqrt :: "'v \<Rightarrow> py_error + 'v"
  num_lt :: "'v \<Rightarrow> 'v \<Rightarrow> bool"
  num_ge :: "'v \<Rightarrow> 'v \<Rightarrow> bool"

text \<open>
  A \<^verbatim>\<open>pygame.Rect\<close> with its four integer fields. \<^verbatim>\<open>pygame\<close> keeps them as C
  ints of 32 bits.
\<close>

datatype 'a rect = Rect (rect_x: 'a) (rect_y: 'a) (rect_w: 'a) (rect_h: 'a)

section \<open>Entity\<close>

record 'v entity =
  e_x :: 'v
  e_y :: 'v
  e_width :: 'v
  e_height :: 'v
  e_rotation :: 'v
  e_scale :: 'v
  e_visible :: bool

text \<open>\<^verbatim>\<open>Entity.__init__(x, y)\<close>\<close>

definition Entity :: "real \<Rightarrow> real \<Rightarrow> real entity" where
  "Entity x y =
     \<lparr>e_x = x, e_y = y, e_width = 0, e_height = 0, e_rotation = 0, e_scale = 1,
      e_visible = True\<rparr>"

section \<open>PhysicsBody\<close>

text \<open>
  \<^verbatim>\<open>velocity\<close> and \<^verbatim>\<open>acceleration\<close> are two-element lists in the source, read
  and written at the indices 0 and 1 only: pairs here. The body holds a reference to its
  entity and writes its position; the entity is a field of the record.
\<close>

record physics_body =
  pb_entity :: "real entity"
  velocity :: "real \<times> real"
  acceleration :: "real \<times> real"
  mass :: real
  gravity_scale :: real
  friction :: real
  restitution :: real
  is_static :: bool

definition PhysicsBody :: "real entity \<Rightarrow> physics_body" where
  "PhysicsBody e =
     \<lparr>pb_entity = e, velocity = (0, 0), acceleration = (0, 0), mass = 1,
      gravity_scale = 1, friction = 1 / 10, restitution = 1 / 2, is_static = False\<rparr>"

text \<open>
  \<^verbatim>\<open>PhysicsBody.apply_force\<close>. The division raises \<^verbatim>\<open>ZeroDivisionError\<close> on a
  zero mass, before anything is written.
\<close>

definition apply_force :: "physics_body \<Rightarrow> real \<Rightarrow> real \<Rightarrow> py_error + physics_body" where
  "apply_force b force_x force_y =
     (if \<not> is_static b then
        (if mass b = 0 then Inl ZeroDivisionError
         else
           let b1 = b\<lparr>acceleration := (fst (acceleration b) + force_x / mass b,
                                       snd (acceleration b))\<rparr>;
               b2 = b1\<lparr>acceleration := (fst (acceleration b1),
                                         snd (acceleration b1) + force_y / mass b1)\<rparr>
           in Inr b2)
      else Inr b)"

text \<open>\<^verbatim>\<open>PhysicsBody.update\<close>, one \<open>let\<close> binding for each assignment of the source.\<close>

definition pb_update :: "physics_body \<Rightarrow> real \<Rightarrow> physics_body" where
  "pb_update b delta_time =
     (if is_static b then b
      else
        let b1 = b\<lparr>acceleration := (fst (acceleration b),
                                    snd (acceleration b) + 981 / 100 * gravity_scale b)\<rparr>;
            b2 = b1\<lparr>velocity := (fst (velocity b1) + fst (acceleration b1) * delta_time,
                                  snd (velocity b1))\<rparr>;
            b3 = b2\<lparr>velocity := (fst (velocity b2),
                                  snd (velocity b2) + snd (acceleration b2) * delta_time)\<rparr>;
            b4 = b3\<lparr>velocity := (fst (velocity b3) * (1 - friction b3), snd (velocity b3))\<rparr>;
            b5 = b4\<lparr>velocity := (fst (velocity b4), snd (velocity b4) * (1 - friction b4))\<rparr>;
            b6 = b5\<lparr>pb_entity := (pb_entity b5)
                     \<lparr>e_x := e_x (pb_entity b5) + fst (velocity b5) * delta_time\<rparr>\<rparr>;
            b7 = b6\<lparr>pb_entity := (pb_entity b6)
                     \<lparr>e_y := e_y (pb_entity b6) + snd (velocity b6) * delta_time\<rparr>\<rparr>
        in b7\<lparr>acceleration := (0, 0)\<rparr>)"

section \<open>Collision shapes\<close>

text \<open>
  The class \<^verbatim>\<open>CollisionShape\<close> and its two subclasses. \<^verbatim>\<open>isinstance\<close> is the
  constructor test. The base class can be instantiated; its methods raise.
\<close>

datatype 'v collision_shape =
    CollisionShape (cs_entity: "'v entity") (offset_x: 'v) (offset_y: 'v)
  | BoxCollider (cs_entity: "'v entity") (offset_x: 'v) (offset_y: 'v)
      (box_width: 'v) (box_height: 'v)
  | CircleCollider (cs_entity: "'v entity") (offset_x: 'v) (offset_y: 'v) (radius: 'v)

text \<open>
  \<^verbatim>\<open>get_bounds\<close>. The second argument is the constructor \<^verbatim>\<open>pygame.Rect\<close>, called
  on the four numbers the source computes, in the order it computes them; it gives a
  rectangle of \<^verbatim>\<open>pygame\<close>'s, of type \<open>'r\<close>, or raises.
\<close>

fun get_bounds ::
  "'v py_arith \<Rightarrow> ('v \<Rightarrow> 'v \<Rightarrow> 'v \<Rightarrow> 'v \<Rightarrow> py_error + 'r) \<Rightarrow> 'v collision_shape \<Rightarrow> py_error + 'r"
where
  "get_bounds ar pygame_Rect (CollisionShape e ox oy) = Inl NotImplementedError"
| "get_bounds ar pygame_Rect (BoxCollider e ox oy w h) =
     bind_err (num_add ar (e_x e) ox) (\<lambda>x_off.
     bind_err (num_truediv ar w (num_int ar 2)) (\<lambda>half_w.
     bind_err (num_sub ar x_off half_w) (\<lambda>left.
     bind_err (num_add ar (e_y e) oy) (\<lambda>y_off.
     bind_err (num_truediv ar h (num_int ar 2)) (\<lambda>half_h.
     bind_err (num_sub ar y_off half_h) (\<lambda>top.
       pygame_Rect left top w h))))))"
| "get_bounds ar pygame_Rect (CircleCollider e ox oy r) =
     bind_err (num_add ar (e_x e) ox) (\<lambda>x_off.
     bind_err (num_sub ar x_off r) (\<lambda>left.
     bind_err (num_add ar (e_y e) oy) (\<lambda>y_off.
     bind_err (num_sub ar y_off r) (\<lambda>top.
     bind_err (num_mul ar r (num_int ar 2)) (\<lambda>w.
     bind_err (num_mul ar r (num_int ar 2)) (\<lambda>h.
       pygame_Rect left top w h))))))"

text \<open>
  \<^verbatim>\<open>collides_with\<close>. The third argument is \<^verbatim>\<open>pygame.Rect.colliderect\<close>, which
  only the box against box case calls.
\<close>

fun collides_with ::
  "'v py_arith \<Rightarrow> ('v \<Rightarrow> 'v \<Rightarrow> 'v \<Rightarrow> 'v \<Rightarrow> py_error + 'r) \<Rightarrow> ('r \<Rightarrow> 'r \<Rightarrow> bool) \<Rightarrow>
     'v collision_shape \<Rightarrow> 'v collision_shape \<Rightarrow> py_error + bool"
where
  "collides_with ar pygame_Rect colliderect (CollisionShape e ox oy) other =
     Inl NotImplementedError"
| "collides_with ar pygame_Rect colliderect (BoxCollider e ox oy w h) other =
     (case other of
        BoxCollider e' ox' oy' w' h' \<Rightarrow>
          bind_err (get_bounds ar pygame_Rect (BoxCollider e ox oy w h)) (\<lambda>a.
          bind_err (get_bounds ar pygame_Rect other) (\<lambda>b.
            Inr (colliderect a b)))
      | _ \<Rightarrow> Inr False)"
| "collides_with ar pygame_Rect colliderect (CircleCollider e ox oy r) other =
     (case other of
        CircleCollider e' ox' oy' r' \<Rightarrow>
          bind_err (num_sub ar (e_x e) (e_x e')) (\<lambda>dx.
          bind_err (num_sub ar (e_y e) (e_y e')) (\<lambda>dy.
          bind_err (num_mul ar dx dx) (\<lambda>dx2.
          bind_err (num_mul ar dy dy) (\<lambda>dy2.
          bind_err (num_add ar dx2 dy2) (\<lambda>sum2.
          bind_err (math_sqrt ar sum2) (\<lambda>distance.
          bind_err (num_add ar r r') (\<lambda>radii.
            Inr (num_lt ar distance radii))))))))
      | _ \<Rightarrow> Inr False)"

section \<open>Scene\<close>

text \<open>
  Entities are objects reached by reference: a scene holds the list of their references
  (type \<open>nat\<close>), and \<^verbatim>\<open>in\<close> and \<^verbatim>\<open>list.remove\<close> compare by identity, since
  \<^verbatim>\<open>Entity\<close> defines no \<^verbatim>\<open>__eq__\<close>. Everything else a callback can reach and
  change (the entities' fields, the screen) is the component \<open>world\<close>.
\<close>

record 'w scene =
  entities :: "nat list"
  world :: 'w



text \<open>
  \<^verbatim>\<open>for entity in self.entities: body\<close>. Python's list iterator keeps an index into
  the live list: each round compares the index with the current length, reads the element
  at the index, advances the index and runs the body, which may change the list. The loop
  need not end (a body that appends every time), so the result is an option. The second
  list is not in the source: it records the references the body was called on, in order.
\<close>

partial_function (option) for_entity_in ::
  "(nat \<Rightarrow> 'w scene \<Rightarrow> 'w scene) \<Rightarrow> nat \<Rightarrow> nat list \<Rightarrow> 'w scene \<Rightarrow> (nat list \<times> 'w scene) option"
where
  "for_entity_in body i called sc =
     (if i < length (entities sc)
      then for_entity_in body (Suc i) (called @ [entities sc ! i]) (body (entities sc ! i) sc)
      else Some (called, sc))"

text \<open>
  \<^verbatim>\<open>Scene.update\<close> and \<^verbatim>\<open>Scene.render\<close>. The first argument is the method the
  call \<^verbatim>\<open>entity.update(delta_time)\<close> (\<^verbatim>\<open>entity.render(screen)\<close>) dispatches to, for
  each entity.
\<close>

definition scene_update ::
  "(nat \<Rightarrow> real \<Rightarrow> 'w scene \<Rightarrow> 'w scene) \<Rightarrow> 'w scene \<Rightarrow> real \<Rightarrow> (nat list \<times> 'w scene) option"
where
  "scene_update entity_update sc delta_time =
     for_entity_in (\<lambda>entity. entity_update entity delta_time) 0 [] sc"


text \<open>
  A pass over \<open>sc\<close> keeps the listed entities when, after each of its first \<open>N\<close>
  calls of the body (\<open>N\<close> the length of the list at the start), the first \<open>N\<close>
  places of the list are as they were at the start. Entities may have been appended
  behind them.
\<close>

definition keeps_listed :: "(nat \<Rightarrow> 'w scene \<Rightarrow> 'w scene) \<Rightarrow> 'w scene \<Rightarrow> bool" where
  "keeps_listed body sc =
     (\<forall>k \<in> {..<length (entities sc)}.
        take (length (entities sc)) (entities (fold body (take (Suc k) (entities sc)) sc)) =
          entities sc)"

section \<open>UI elements\<close>

text \<open>
  A \<^verbatim>\<open>UIElement\<close> is an \<^verbatim>\<open>Entity\<close> with a parent and children, both references
  into a store of elements.
\<close>

record ui_element = "real entity" +
  parent :: "nat option"
  children :: "nat list"
  padding :: real
  enabled :: bool

type_synonym ui_store = "nat \<Rightarrow> ui_element"




subsection \<open>Button\<close>

datatype event =
    QUIT
  | KEYDOWN int
  | KEYUP int
  | MOUSEBUTTONDOWN int
  | MOUSEBUTTONUP int
  | MOUSEMOTION



subsection \<open>Layout\<close>

record layout =
  panel :: nat
  spacing :: real

text \<open>
  The loop of \<^verbatim>\<open>VerticalLayout.update\<close> over the children, with the running
  \<^verbatim>\<open>current_y\<close>.
\<close>

fun place_vertical :: "real \<Rightarrow> nat list \<Rightarrow> real \<Rightarrow> ui_store \<Rightarrow> ui_store" where
  "place_vertical sp [] current_y st = st"
| "place_vertical sp (child # rest) current_y st =
     (let st1 = st(child := (st child)\<lparr>e_x := 0\<rparr>);
          st2 = st1(child := (st1 child)\<lparr>e_y := current_y + e_height (st1 child) / 2\<rparr>)
      in place_vertical sp rest (current_y + e_height (st2 child) + sp) st2)"

definition vertical_layout_update :: "ui_store \<Rightarrow> layout \<Rightarrow> ui_store" where
  "vertical_layout_update st self =
     (let cs = children (st (panel self)) in
      if cs = [] then st
      else
        let total_height = sum_list (map (\<lambda>child. e_height (st child)) cs);
            total_spacing = spacing self * (real (length cs) - 1);
            current_y = - total_height / 2 - total_spacing / 2
        in place_vertical (spacing self) cs current_y st)"

section \<open>Sprite\<close>

text \<open>
  \<^verbatim>\<open>int(v)\<close> on a number with the finite value \<open>v\<close>: the integer part, rounding
  toward zero.
\<close>

definition py_int :: "real \<Rightarrow> int" where
  "py_int v = (if 0 \<le> v then \<lfloor>v\<rfloor> else \<lceil>v\<rceil>)"

text \<open>
  The services of \<^verbatim>\<open>pygame\<close> that \<^verbatim>\<open>Sprite.render\<close> calls on a surface of type
  \<open>'surf\<close>; each may raise. The pixels, which \<^verbatim>\<open>fill\<close> and \<^verbatim>\<open>set_alpha\<close> change
  in place, are part of the surface value the call returns.
\<close>

record 'surf pygame =
  subsurface :: "'surf \<Rightarrow> int rect \<Rightarrow> py_error + 'surf"
  get_width :: "'surf \<Rightarrow> int"
  get_height :: "'surf \<Rightarrow> int"
  transform_scale :: "'surf \<Rightarrow> int \<times> int \<Rightarrow> py_error + 'surf"
  transform_rotate :: "'surf \<Rightarrow> real \<Rightarrow> py_error + 'surf"
  transform_flip :: "'surf \<Rightarrow> bool \<Rightarrow> bool \<Rightarrow> py_error + 'surf"
  fill_rgba_mult :: "'surf \<Rightarrow> int \<times> int \<times> int \<Rightarrow> py_error + 'surf"
  set_alpha :: "'surf \<Rightarrow> int \<Rightarrow> py_error + 'surf"

text \<open>
  Of \<^verbatim>\<open>pygame.Rect\<close> itself: a rectangle is true when neither side is zero;
  \<^verbatim>\<open>get_rect()\<close> is the surface's size at the origin. Its fields are C ints:
  assigning \<^verbatim>\<open>center\<close> raises \<^verbatim>\<open>TypeError\<close> unless both coordinates fit, and then
  moves the corner by half the size in C arithmetic, which wraps around.
\<close>

definition c_int :: "int \<Rightarrow> bool" where
  "c_int v = (- (2 ^ 31) \<le> v \<and> v < 2 ^ 31)"

definition wrap_c_int :: "int \<Rightarrow> int" where
  "wrap_c_int v = (v + 2 ^ 31) mod 2 ^ 32 - 2 ^ 31"

definition rect_bool :: "int rect \<Rightarrow> bool" where
  "rect_bool r = (rect_w r \<noteq> 0 \<and> rect_h r \<noteq> 0)"

definition get_rect :: "'surf pygame \<Rightarrow> 'surf \<Rightarrow> int rect" where
  "get_rect pg t = Rect 0 0 (get_width pg t) (get_height pg t)"

definition rect_center :: "int rect \<Rightarrow> int \<times> int" where
  "rect_center r =
     (wrap_c_int (rect_x r + rect_w r div 2), wrap_c_int (rect_y r + rect_h r div 2))"

definition set_center :: "int rect \<Rightarrow> int \<times> int \<Rightarrow> py_error + int rect" where
  "set_center r c =
     (if c_int (fst c) \<and> c_int (snd c)
      then Inr (Rect (wrap_c_int (fst c - rect_w r div 2)) (wrap_c_int (snd c - rect_h r div 2))
                  (rect_w r) (rect_h r))
      else Inl TypeError)"

record 'surf sprite = "real entity" +
  texture_name :: string
  texture :: "'surf option"
  src_rect :: "int rect option"
  flip_x :: bool
  flip_y :: bool
  color_mod :: "int \<times> int \<times> int"
  alpha :: int

text \<open>
  \<^verbatim>\<open>Sprite.render\<close>, in two parts. The first is the lines from
  \<^verbatim>\<open>texture = self.texture\<close> to \<^verbatim>\<open>texture.set_alpha(self.alpha)\<close>: the image to
  draw, or the exception of the first call that raises. The argument \<open>int_of_scaled\<close>
  is the computation \<^verbatim>\<open>int(n * self.scale)\<close> of Python, for the int \<open>n\<close>: a
  float product, rounded, then cut to an int.
\<close>

definition render_texture ::
  "(int \<Rightarrow> real \<Rightarrow> py_error + int) \<Rightarrow> 'surf pygame \<Rightarrow> ('surf, 'a) sprite_scheme \<Rightarrow> 'surf \<Rightarrow>
     py_error + 'surf"
where
  "render_texture int_of_scaled pg self tex =
     bind_err (case src_rect self of
                 None \<Rightarrow> Inr tex
               | Some r \<Rightarrow> if rect_bool r then subsurface pg tex r else Inr tex) (\<lambda>t1.
     bind_err (if e_scale self \<noteq> 1 \<or> e_rotation self \<noteq> 0 then
                 bind_err (int_of_scaled (get_width pg t1) (e_scale self)) (\<lambda>scaled_width.
                 bind_err (int_of_scaled (get_height pg t1) (e_scale self)) (\<lambda>scaled_height.
                 bind_err (transform_scale pg t1 (scaled_width, scaled_height)) (\<lambda>t.
                   if e_rotation self \<noteq> 0 then transform_rotate pg t (e_rotation self)
                   else Inr t)))
               else Inr t1) (\<lambda>t2.
     bind_err (if flip_x self \<or> flip_y self
               then transform_flip pg t2 (flip_x self) (flip_y self) else Inr t2) (\<lambda>t3.
     bind_err (fill_rgba_mult pg t3 (color_mod self)) (\<lambda>t4.
       set_alpha pg t4 (alpha self)))))"

text \<open>
  The second part is the early return (\<open>Inr None\<close>) and the last three lines: the
  result is the pair of arguments of \<^verbatim>\<open>screen.blit(texture, dest_rect)\<close>.
\<close>

definition sprite_render ::
  "(int \<Rightarrow> real \<Rightarrow> py_error + int) \<Rightarrow> 'surf pygame \<Rightarrow> ('surf, 'a) sprite_scheme \<Rightarrow>
     py_error + ('surf \<times> int rect) option"
where
  "sprite_render int_of_scaled pg self =
     (case texture self of
        None \<Rightarrow> Inr None
      | Some tex \<Rightarrow>
          if \<not> e_visible self then Inr None
          else
            bind_err (render_texture int_of_scaled pg self tex) (\<lambda>t.
            bind_err (set_center (get_rect pg t) (py_int (e_x self), py_int (e_y self)))
              (\<lambda>dest_rect. Inr (Some (t, dest_rect)))))"

section \<open>Animation\<close>

record 'v animation =
  sprite_sheet :: string
  frame_width :: int
  frame_height :: int
  frame_count :: int
  frame_duration :: 'v
  frames :: "int rect list"
  current_frame :: int
  time_accumulated :: 'v
  is_playing :: bool
  is_looping :: bool

text \<open>
  \<^verbatim>\<open>Animation.__init__\<close>. \<open>sheet_width\<close> is the width of the image that
  \<^verbatim>\<open>pygame.image.load(sprite_sheet)\<close> returns. \<^verbatim>\<open>//\<close> and \<^verbatim>\<open>%\<close> raise on a
  zero divisor: the first when \<open>frame_width\<close> is zero, the second in the first round
  of the loop.
\<close>

definition Animation ::
  "'v py_arith \<Rightarrow> int \<Rightarrow> string \<Rightarrow> int \<Rightarrow> int \<Rightarrow> int \<Rightarrow> 'v \<Rightarrow> py_error + 'v animation"
where
  "Animation ar sheet_width sheet fw fh n d =
     (if fw = 0 then Inl ZeroDivisionError
      else
        let frames_per_row = sheet_width div fw in
        if 0 < n \<and> frames_per_row = 0 then Inl ZeroDivisionError
        else Inr
          \<lparr>sprite_sheet = sheet, frame_width = fw, frame_height = fh, frame_count = n,
           frame_duration = d,
           frames = map (\<lambda>i. Rect ((i mod frames_per_row) * fw) ((i div frames_per_row) * fh) fw fh)
                      [0..n - 1],
           current_frame = 0, time_accumulated = num_int ar 0, is_playing = False,
           is_looping = True\<rparr>)"

text \<open>
  \<^verbatim>\<open>xs[i]\<close> on a list of length \<open>n\<close>: the indices \<open>0\<close> to \<open>n - 1\<close> read
  from the front, \<open>-n\<close> to \<open>-1\<close> from the back, every other one raises.
\<close>

definition list_getitem :: "'a list \<Rightarrow> int \<Rightarrow> py_error + 'a" where
  "list_getitem xs i =
     (if 0 \<le> i \<and> i < int (length xs) then Inr (xs ! nat i)
      else if i < 0 \<and> - int (length xs) \<le> i then Inr (xs ! nat (int (length xs) + i))
      else Inl IndexError)"

record ('surf, 'v) animated_sprite = "'surf sprite" +
  animations :: "string \<rightharpoonup> 'v animation"
  current_animation :: "string option"

text \<open>
  \<^verbatim>\<open>play_animation\<close> and \<^verbatim>\<open>add_animation\<close>. \<^verbatim>\<open>not self.current_animation\<close>
  holds for \<^verbatim>\<open>None\<close> and for the empty string.
\<close>

definition play_animation ::
  "'v py_arith \<Rightarrow> ('surf, 'v) animated_sprite \<Rightarrow> string \<Rightarrow> bool \<Rightarrow> ('surf, 'v) animated_sprite"
where
  "play_animation ar self name loop =
     (case animations self name of
        None \<Rightarrow> self
      | Some a \<Rightarrow>
          self\<lparr>current_animation := Some name,
               animations := (animations self)(name \<mapsto>
                 a\<lparr>is_playing := True, is_looping := loop, current_frame := 0,
                   time_accumulated := num_int ar 0\<rparr>)\<rparr>)"

definition add_animation ::
  "'v py_arith \<Rightarrow> ('surf, 'v) animated_sprite \<Rightarrow> string \<Rightarrow> 'v animation \<Rightarrow>
     ('surf, 'v) animated_sprite"
where
  "add_animation ar self name a =
     (let s1 = self\<lparr>animations := (animations self)(name \<mapsto> a)\<rparr> in
      if current_animation s1 = None \<or> current_animation s1 = Some []
      then play_animation ar s1 name True else s1)"

text \<open>
  \<^verbatim>\<open>AnimatedSprite.update\<close>. \<^verbatim>\<open>anim\<close> is the object held by the dictionary, so
  its assignments are writes to the dictionary's entry.
\<close>

definition as_update ::
  "'v py_arith \<Rightarrow> ('surf, 'v) animated_sprite \<Rightarrow> 'v \<Rightarrow> py_error + ('surf, 'v) animated_sprite"
where
  "as_update ar self delta_time =
     (case current_animation self of
        None \<Rightarrow> Inr self
      | Some name \<Rightarrow>
          (if name = [] then Inr self
           else
             (case animations self name of
                None \<Rightarrow> Inl KeyError
              | Some anim \<Rightarrow>
                  (if \<not> is_playing anim then Inr self
                   else
                     bind_err (num_add ar (time_accumulated anim) delta_time) (\<lambda>acc.
                       (let a1 = anim\<lparr>time_accumulated := acc\<rparr>;
                            a2 = (if num_ge ar (time_accumulated a1) (frame_duration a1) then
                                    (let a3 = a1\<lparr>time_accumulated := num_int ar 0\<rparr>;
                                         a4 = a3\<lparr>current_frame := current_frame a3 + 1\<rparr>
                                     in if frame_count a4 \<le> current_frame a4 then
                                          (if is_looping a4 then a4\<lparr>current_frame := 0\<rparr>
                                           else
                                             (let a5 = a4\<lparr>is_playing := False\<rparr>
                                              in a5\<lparr>current_frame := frame_count a5 - 1\<rparr>))
                                        else a4)
                                  else a1);
                            s1 = self\<lparr>animations := (animations self)(name \<mapsto> a2)\<rparr>
                        in bind_err (list_getitem (frames a2) (current_frame a2))
                             (\<lambda>r. Inr (s1\<lparr>src_rect := Some r\<rparr>))))))))"

text \<open>
  The frame index of the active clip, and the indices seen after each of a run of
  \<^verbatim>\<open>update\<close> calls.
\<close>

definition active_frame :: "('surf, 'v) animated_sprite \<Rightarrow> int option" where
  "active_frame self =
     (case current_animation self of
        None \<Rightarrow> None
      | Some name \<Rightarrow> map_option current_frame (animations self name))"

fun frames_after ::
  "'v py_arith \<Rightarrow> ('surf, 'v) animated_sprite \<Rightarrow> 'v list \<Rightarrow> py_error + int option list"
where
  "frames_after ar self [] = Inr []"
| "frames_after ar self (dt # dts) =
     bind_err (as_update ar self dt) (\<lambda>s1.
     bind_err (frames_after ar s1 dts) (\<lambda>fs.
       Inr (active_frame s1 # fs)))"

definition AnimatedSprite :: "real \<Rightarrow> real \<Rightarrow> ('surf, 'v) animated_sprite" where
  "AnimatedSprite x y =
     \<lparr>e_x = x, e_y = y, e_width = 0, e_height = 0, e_rotation = 0, e_scale = 1,
      e_visible = True, texture_name = [], texture = None, src_rect = None,
      flip_x = False, flip_y = False, color_mod = (255, 255, 255), alpha = 255,
      animations = Map.empty, current_animation = None\<rparr>"

section \<open>Python's floats\<close>

text \<open>
  The arithmetic at which concrete runs are evaluated: IEEE 754 binary64 with rounding to
  nearest, ties to even, as Python's \<^verbatim>\<open>float\<close>. A float is a finite value, an
  infinity or NaN; the two zeros are one value, which the operations used here do not
  tell apart. A finite result is rounded to 53 significant bits (fewer below
  \<open>2 powi -1022\<close>, where the spacing stays \<open>2 powi -1074\<close>) and becomes an infinity
  when the rounded value reaches \<open>2 ^ 1024\<close>.
\<close>

datatype pyfloat = Fin real | PosInf | NegInf | NaN

definition half_even :: "real \<Rightarrow> int" where
  "half_even q =
     (let f = \<lfloor>q\<rfloor>; d = q - of_int f
      in if d < 1 / 2 then f else if 1 / 2 < d then f + 1 else if even f then f else f + 1)"

definition ulp_exponent :: "real \<Rightarrow> int" where
  "ulp_exponent x = max (\<lfloor>log 2 \<bar>x\<bar>\<rfloor> - 52) (- 1074)"

definition round_binary64 :: "real \<Rightarrow> real" where
  "round_binary64 x =
     (if x = 0 then 0
      else of_int (half_even (x / 2 powi ulp_exponent x)) * 2 powi ulp_exponent x)"

definition to_float :: "real \<Rightarrow> pyfloat" where
  "to_float x =
     (let y = round_binary64 x
      in if 2 ^ 1024 \<le> \<bar>y\<bar> then (if 0 < y then PosInf else NegInf) else Fin y)"

fun fl_neg :: "pyfloat \<Rightarrow> pyfloat" where
  "fl_neg (Fin a) = Fin (- a)"
| "fl_neg PosInf = NegInf"
| "fl_neg NegInf = PosInf"
| "fl_neg NaN = NaN"

fun fl_add :: "pyfloat \<Rightarrow> pyfloat \<Rightarrow> pyfloat" where
  "fl_add (Fin a) (Fin b) = to_float (a + b)"
| "fl_add NaN b = NaN"
| "fl_add a NaN = NaN"
| "fl_add PosInf NegInf = NaN"
| "fl_add NegInf PosInf = NaN"
| "fl_add PosInf b = PosInf"
| "fl_add NegInf b = NegInf"
| "fl_add (Fin a) b = b"

fun fl_mul :: "pyfloat \<Rightarrow> pyfloat \<Rightarrow> pyfloat" where
  "fl_mul (Fin a) (Fin b) = to_float (a * b)"
| "fl_mul NaN b = NaN"
| "fl_mul a NaN = NaN"
| "fl_mul (Fin a) b = (if a = 0 then NaN else if 0 < a then b else fl_neg b)"
| "fl_mul a (Fin b) = (if b = 0 then NaN else if 0 < b then a else fl_neg a)"
| "fl_mul PosInf b = b"
| "fl_mul NegInf b = fl_neg b"

fun fl_truediv :: "pyfloat \<Rightarrow> pyfloat \<Rightarrow> py_error + pyfloat" where
  "fl_truediv (Fin a) (Fin b) = (if b = 0 then Inl ZeroDivisionError else Inr (to_float (a / b)))"
| "fl_truediv NaN b = (if b = Fin 0 then Inl ZeroDivisionError else Inr NaN)"
| "fl_truediv a NaN = Inr NaN"
| "fl_truediv (Fin a) b = Inr (Fin 0)"
| "fl_truediv a (Fin b) =
     (if b = 0 then Inl ZeroDivisionError else if 0 < b then Inr a else Inr (fl_neg a))"
| "fl_truediv a b = Inr NaN"

fun fl_sqrt :: "pyfloat \<Rightarrow> py_error + pyfloat" where
  "fl_sqrt (Fin a) = (if a < 0 then Inl ValueError else Inr (to_float (sqrt a)))"
| "fl_sqrt PosInf = Inr PosInf"
| "fl_sqrt NegInf = Inl ValueError"
| "fl_sqrt NaN = Inr NaN"

fun fl_lt :: "pyfloat \<Rightarrow> pyfloat \<Rightarrow> bool" where
  "fl_lt (Fin a) (Fin b) = (a < b)"
| "fl_lt NaN b = False"
| "fl_lt a NaN = False"
| "fl_lt a NegInf = False"
| "fl_lt PosInf b = False"
| "fl_lt a b = True"

text \<open>
  As a \<open>py_arith\<close>: every number is a float, and an int of the source (the literals
  \<open>0\<close> and \<open>2\<close>) is the float of the same value, to which Python converts it when
  the other operand is a float.
\<close>

definition binary64 :: "pyfloat py_arith" where
  "binary64 =
     \<lparr>num_int = (\<lambda>n. to_float (of_int n)),
      num_add = (\<lambda>a b. Inr (fl_add a b)),
      num_sub = (\<lambda>a b. Inr (fl_add a (fl_neg b))),
      num_mul = (\<lambda>a b. Inr (fl_mul a b)),
      num_truediv = fl_truediv,
      math_sqrt = fl_sqrt,
      num_lt = fl_lt,
      num_ge = (\<lambda>a b. fl_lt b a \<or> (a = b \<and> a \<noteq> NaN))\<rparr>"

text \<open>
  \<^verbatim>\<open>int(n * scale)\<close> for an int \<open>n\<close> and a float \<open>scale\<close>, and
  \<^verbatim>\<open>pygame.Rect\<close> called on four floats, which it cuts toward zero to C ints.
\<close>

definition float_int_of_scaled :: "int \<Rightarrow> real \<Rightarrow> py_error + int" where
  "float_int_of_scaled n scale =
     (case to_float (of_int n * scale) of
        Fin v \<Rightarrow> Inr (py_int v)
      | NaN \<Rightarrow> Inl ValueError
      | _ \<Rightarrow> Inl OverflowError)"

fun float_c_int :: "pyfloat \<Rightarrow> py_error + int" where
  "float_c_int (Fin v) = (if c_int (py_int v) then Inr (py_int v) else Inl TypeError)"
| "float_c_int a = Inl TypeError"

definition Rect_of_floats ::
  "pyfloat \<Rightarrow> pyfloat \<Rightarrow> pyfloat \<Rightarrow> pyfloat \<Rightarrow> py_error + int rect"
where
  "Rect_of_floats a b c d =
     bind_err (float_c_int a) (\<lambda>left.
     bind_err (float_c_int b) (\<lambda>top.
     bind_err (float_c_int c) (\<lambda>w.
     bind_err (float_c_int d) (\<lambda>h.
       Inr (Rect left top w h)))))"

text \<open>
  \<^verbatim>\<open>colliderect\<close> on two rectangles of positive size, and the value of a finite
  float.
\<close>

definition overlap :: "int rect \<Rightarrow> int rect \<Rightarrow> bool" where
  "overlap a b =
     (rect_x a < rect_x b + rect_w b \<and> rect_x b < rect_x a + rect_w a \<and>
      rect_y a < rect_y b + rect_h b \<and> rect_y b < rect_y a + rect_h a)"

fun float_val :: "pyfloat \<Rightarrow> real" where
  "float_val (Fin x) = x"
| "float_val a = 0"

section \<open>Concrete inputs\<close>









text \<open>A panel (reference 0) with two children of heights 20 and 30.\<close>

definition UIElement :: "real \<Rightarrow> real \<Rightarrow> real \<Rightarrow> real \<Rightarrow> ui_element" where
  "UIElement x y w h =
     \<lparr>e_x = x, e_y = y, e_width = w, e_height = h, e_rotation = 0, e_scale = 1,
      e_visible = True, parent = None, children = [], padding = 5, enabled = True\<rparr>"

definition stacked :: ui_store where
  "stacked r =
     (if r = 0 then (UIElement 0 0 200 200)\<lparr>children := [1, 2]\<rparr>
      else if r = 1 then (UIElement 7 7 100 20)\<lparr>parent := Some 0\<rparr>
      else (UIElement 9 9 100 30)\<lparr>parent := Some 0\<rparr>)"

text \<open>
  The float written \<^verbatim>\<open>0.1\<close>. A sprite sheet 128 wide cut into four frames of 32
  by 32 that last 0.1 each, played by a sprite under the name \<^verbatim>\<open>walk\<close>, and the
  same clip registered under the empty name.
\<close>

definition tenth :: pyfloat where
  "tenth = to_float (1 / 10)"

definition walker :: "(unit, pyfloat) animated_sprite" where
  "walker =
     (case Animation binary64 128 ''walk.png'' 32 32 4 tenth of
        Inl err \<Rightarrow> AnimatedSprite 0 0
      | Inr a \<Rightarrow> add_animation binary64 (AnimatedSprite 0 0) ''walk'' a)"

definition nameless :: "(unit, pyfloat) animated_sprite" where
  "nameless =
     (case Animation binary64 128 ''walk.png'' 32 32 4 tenth of
        Inl err \<Rightarrow> AnimatedSprite 0 0
      | Inr a \<Rightarrow> add_animation binary64 (AnimatedSprite 0 0) [] a)"

text \<open>
  \<^verbatim>\<open>Entity(x, y)\<close> with float arguments written as decimals, and a circle collider
  on it with offsets 0.
\<close>

definition float_Entity :: "real \<Rightarrow> real \<Rightarrow> pyfloat entity" where
  "float_Entity x y =
     \<lparr>e_x = to_float x, e_y = to_float y, e_width = Fin 0, e_height = Fin 0,
      e_rotation = Fin 0, e_scale = Fin 1, e_visible = True\<rparr>"

definition circle_at :: "real \<Rightarrow> real \<Rightarrow> real \<Rightarrow> pyfloat collision_shape" where
  "circle_at x y r = CircleCollider (float_Entity x y) (Fin 0) (Fin 0) (to_float r)"

text \<open>
  Surfaces without content and of size 10 by 6, on which every call returns; a sprite
  off the pixel grid.
\<close>

definition plain_pygame :: "unit pygame" where
  "plain_pygame =
     \<lparr>subsurface = (\<lambda>t r. Inr t), get_width = (\<lambda>t. 10), get_height = (\<lambda>t. 6),
      transform_scale = (\<lambda>t size. Inr t), transform_rotate = (\<lambda>t angle. Inr t),
      transform_flip = (\<lambda>t fx fy. Inr t), fill_rgba_mult = (\<lambda>t c. Inr t),
      set_alpha = (\<lambda>t a. Inr t)\<rparr>"

definition off_grid_sprite :: "unit sprite" where
  "off_grid_sprite =
     \<lparr>e_x = 11 / 4, e_y = - 7 / 4, e_width = 10, e_height = 6, e_rotation = 0, e_scale = 1,
      e_visible = True, texture_name = ''hero'', texture = Some (), src_rect = None,
      flip_x = False, flip_y = False, color_mod = (255, 255, 255), alpha = 255\<rparr>"

section \<open>Physics: the integration step\<close>

lemma pb_update_static: "is_static b \<Longrightarrow> pb_update b dt = b"
  by (simp add: pb_update_def)

lemma pb_updates_static: "is_static b \<Longrightarrow> foldl pb_update b dts = b"
  by (induction dts) (simp_all add: pb_update_static)

text \<open>
  C2. A body that is not static: after one \<^verbatim>\<open>update\<close> the velocity is the old
  velocity plus acceleration times \<open>dt\<close> (the vertical acceleration first increased
  by \<open>9.81 * gravity_scale\<close>), times \<open>1 - friction\<close> whatever \<open>dt\<close> is; the
  position has moved by that damped velocity times \<open>dt\<close>; the acceleration is zero;
  nothing else has changed.
\<close>

theorem pb_update_steps:
  assumes "\<not> is_static b"
  shows "pb_update b dt =
     (let ax = fst (acceleration b);
          ay = snd (acceleration b) + 981 / 100 * gravity_scale b;
          vx = (fst (velocity b) + ax * dt) * (1 - friction b);
          vy = (snd (velocity b) + ay * dt) * (1 - friction b)
      in b\<lparr>pb_entity := (pb_entity b)\<lparr>e_x := e_x (pb_entity b) + vx * dt,
                                       e_y := e_y (pb_entity b) + vy * dt\<rparr>,
            velocity := (vx, vy),
            acceleration := (0, 0)\<rparr>)"
  using assms by (simp add: pb_update_def Let_def)

theorem pb_update_steps_witness:
  "\<not> is_static (PhysicsBody (Entity 0 0)) \<and>
   velocity (pb_update (PhysicsBody (Entity 0 0)) 0) = (0, 0) \<and>
   velocity (pb_update ((PhysicsBody (Entity 0 0))\<lparr>velocity := (10, 0)\<rparr>) 0) = (9, 0) \<and>
   velocity (pb_update (PhysicsBody (Entity 0 0)) 1) = (0, 8829 / 1000) \<and>
   e_y (pb_entity (pb_update (PhysicsBody (Entity 0 0)) 1)) = 8829 / 1000 \<and>
   acceleration (pb_update (PhysicsBody (Entity 0 0)) 1) = (0, 0)"
  using pb_update_steps [of "PhysicsBody (Entity 0 0)" 0]
    pb_update_steps [of "(PhysicsBody (Entity 0 0))\<lparr>velocity := (10, 0)\<rparr>" 0]
    pb_update_steps [of "PhysicsBody (Entity 0 0)" 1]
  by (simp add: PhysicsBody_def Entity_def Let_def)

text \<open>
  C8. A static body: any sequence of \<^verbatim>\<open>update\<close> calls leaves the velocity and the
  entity's position as they were, and \<^verbatim>\<open>apply_force\<close> returns with the
  acceleration as it was.
\<close>

theorem static_body_frozen:
  assumes "is_static b"
  shows "velocity (foldl pb_update b dts) = velocity b \<and>
         e_x (pb_entity (foldl pb_update b dts)) = e_x (pb_entity b) \<and>
         e_y (pb_entity (foldl pb_update b dts)) = e_y (pb_entity b) \<and>
         (\<exists>b'. apply_force b force_x force_y = Inr b' \<and> acceleration b' = acceleration b)"
  using assms by (simp add: pb_updates_static apply_force_def)

theorem static_body_frozen_witness:
  "is_static ((PhysicsBody (Entity 3 4))\<lparr>velocity := (1, 2), is_static := True\<rparr>) \<and>
   velocity (foldl pb_update ((PhysicsBody (Entity 3 4))\<lparr>velocity := (1, 2), is_static := True\<rparr>)
     [1 / 60, 0, 5]) = (1, 2) \<and>
   e_x (pb_entity (foldl pb_update
     ((PhysicsBody (Entity 3 4))\<lparr>velocity := (1, 2), is_static := True\<rparr>) [1 / 60, 0, 5])) = 3 \<and>
   e_y (pb_entity (foldl pb_update
     ((PhysicsBody (Entity 3 4))\<lparr>velocity := (1, 2), is_static := True\<rparr>) [1 / 60, 0, 5])) = 4"
  using static_body_frozen [of "(PhysicsBody (Entity 3 4))\<lparr>velocity := (1, 2), is_static := True\<rparr>"
      "[1 / 60, 0, 5]" 7 7]
  by (simp add: PhysicsBody_def Entity_def)

section \<open>Rounding to a float\<close>

lemma floor_log2:
  assumes "2 powi k \<le> x" "x < 2 powi (k + 1)"
  shows "\<lfloor>log 2 x\<rfloor> = k"
proof -
  have "(0::real) < 2 powi k" by simp
  then have pos: "0 < x" using assms(1) by linarith
  have a: "2 powr (real_of_int k) = 2 powi k" by (rule powr_real_of_int') simp_all
  have b: "2 powr (real_of_int (k + 1)) = 2 powi (k + 1)" by (rule powr_real_of_int') simp_all
  have "2 powr (real_of_int k) \<le> x" using assms(1) by (simp only: a)
  then have lo: "real_of_int k \<le> log 2 x"
    using le_log_iff [of 2 x "real_of_int k"] pos by simp
  have "x < 2 powr (real_of_int (k + 1))" using assms(2) by (simp only: b)
  then have hi: "log 2 x < real_of_int (k + 1)"
    using log_less_iff [of 2 x "real_of_int (k + 1)"] pos by (simp del: of_int_add)
  from lo hi show ?thesis by linarith
qed

lemma half_even_of_int: "half_even (of_int m) = m"
  by (simp add: half_even_def)

lemma half_even_near:
  assumes "of_int m - 1 / 2 < q" "q < of_int m + 1 / 2"
  shows "half_even q = m"
proof -
  consider "\<lfloor>q\<rfloor> = m" | "\<lfloor>q\<rfloor> = m - 1" using assms by linarith
  then show ?thesis
  proof cases
    case 1
    then show ?thesis using assms by (simp add: half_even_def Let_def)
  next
    case 2
    then have "1 / 2 < q - of_int \<lfloor>q\<rfloor>" using assms by simp
    then show ?thesis using 2 by (simp add: half_even_def Let_def)
  qed
qed

lemma half_even_bound:
  assumes "\<bar>q\<bar> \<le> of_int M"
  shows "\<bar>half_even q\<bar> \<le> M"
proof -
  have "half_even q = \<lfloor>q\<rfloor> \<or> (half_even q = \<lfloor>q\<rfloor> + 1 \<and> 1 / 2 \<le> q - of_int \<lfloor>q\<rfloor>)"
    by (auto simp add: half_even_def Let_def)
  then show ?thesis using assms by linarith
qed

lemma ulp_exponent_eq:
  assumes "2 powi k \<le> \<bar>x\<bar>" "\<bar>x\<bar> < 2 powi (k + 1)" "- 1022 \<le> k"
  shows "ulp_exponent x = k - 52"
  using floor_log2 [OF assms(1,2)] assms(3) by (simp add: ulp_exponent_def)

lemma two_powi_split: "(2::real) powi (k + 1) = 2 ^ 53 * 2 powi (k - 52)"
proof -
  have eq: "k + 1 = 53 + (k - 52)" by simp
  have "(2::real) powi (k + 1) = 2 powi (53 + (k - 52))" by (subst eq) (rule refl)
  also have "\<dots> = 2 powi 53 * 2 powi (k - 52)" by (rule power_int_add) simp
  finally show ?thesis by simp
qed

text \<open>
  A value between \<open>2 powi k\<close> and \<open>2 powi (k + 1)\<close> is rounded on the grid of
  spacing \<open>2 powi (k - 52)\<close>.
\<close>

lemma to_float_normal:
  assumes lo: "2 powi k \<le> \<bar>x\<bar>" and hi: "\<bar>x\<bar> < 2 powi (k + 1)"
    and k: "- 1022 \<le> k" "k \<le> 1022"
    and m: "half_even (x / 2 powi (k - 52)) = m"
  shows "to_float x = Fin (of_int m * 2 powi (k - 52))"
proof -
  have e: "ulp_exponent x = k - 52" using lo hi k(1) by (rule ulp_exponent_eq)
  have p: "(0::real) < 2 powi k" "(0::real) < 2 powi (k - 52)" by simp_all
  have nz: "x \<noteq> 0" using lo p(1) by linarith
  have r: "round_binary64 x = of_int m * 2 powi (k - 52)"
    using nz by (simp add: round_binary64_def e m)
  have "\<bar>x\<bar> / 2 powi (k - 52) \<le> 2 ^ 53"
    using hi p(2) by (simp add: two_powi_split pos_divide_le_eq)
  then have "\<bar>x / 2 powi (k - 52)\<bar> \<le> of_int (2 ^ 53)" by simp
  then have "\<bar>m\<bar> \<le> 2 ^ 53" using half_even_bound m by blast
  then have "real_of_int \<bar>m\<bar> \<le> real_of_int (2 ^ 53)" by (simp only: of_int_le_iff)
  then have "\<bar>real_of_int m\<bar> \<le> 2 ^ 53" by simp
  then have "\<bar>of_int m * 2 powi (k - 52)\<bar> \<le> (2::real) powi (k + 1)"
    using p(2) by (simp add: two_powi_split abs_mult)
  also have "\<dots> \<le> 2 powi 1023" using k(2) by (intro power_int_increasing) simp_all
  also have "\<dots> < 2 ^ 1024" by simp
  finally show ?thesis by (simp add: to_float_def r Let_def)
qed

text \<open>A value with at most 53 significant bits is a float: rounding leaves it.\<close>

lemma to_float_exact:
  assumes x: "x = of_int m * 2 powi e" and m: "\<bar>m\<bar> < 2 ^ 53" and e: "- 1074 \<le> e" "e \<le> 970"
  shows "to_float x = Fin x"
proof (cases "m = 0")
  case True
  then show ?thesis using x by (simp add: to_float_def round_binary64_def)
next
  case False
  have nz: "x \<noteq> 0" using False x by simp
  have pe: "(0::real) < 2 powi e" by simp
  have "real_of_int \<bar>m\<bar> < real_of_int (2 ^ 53)" using m by (simp only: of_int_less_iff)
  then have am: "\<bar>real_of_int m\<bar> < 2 ^ 53" by simp
  have eq: "e + 53 = 53 + e" by simp
  have "(2::real) powi (e + 53) = 2 powi 53 * 2 powi e"
    by (subst eq) (rule power_int_add, simp)
  then have split: "(2::real) powi (e + 53) = 2 ^ 53 * 2 powi e" by simp
  have ax: "\<bar>x\<bar> = \<bar>real_of_int m\<bar> * 2 powi e" by (simp add: x abs_mult)
  have lt: "\<bar>x\<bar> < 2 powi (e + 53)"
    unfolding ax split using am pe by (simp add: mult_strict_right_mono)
  have b: "2 powr (real_of_int (e + 53)) = 2 powi (e + 53)" by (rule powr_real_of_int') simp_all
  have "\<bar>x\<bar> < 2 powr (real_of_int (e + 53))" using lt by (simp only: b)
  then have "log 2 \<bar>x\<bar> < real_of_int (e + 53)"
    using log_less_iff [of 2 "\<bar>x\<bar>" "real_of_int (e + 53)"] nz by (simp del: of_int_add)
  then have "\<lfloor>log 2 \<bar>x\<bar>\<rfloor> < e + 53" by (simp only: floor_less_iff)
  then have "ulp_exponent x \<le> e" using e(1) by (simp add: ulp_exponent_def)
  moreover define u where "u = ulp_exponent x"
  ultimately have u: "u \<le> e" by simp
  define n where "n = nat (e - u)"
  have en: "e = int n + u" using u by (simp add: n_def)
  have "(2::real) powi e = 2 powi (int n) * 2 powi u"
    by (subst en) (rule power_int_add, simp)
  then have pw: "(2::real) powi e = 2 ^ n * 2 powi u" by simp
  have xu: "x = real_of_int (m * 2 ^ n) * 2 powi u"
    unfolding x pw by simp
  have pu: "(2::real) powi u \<noteq> 0" by simp
  have q: "x / 2 powi u = real_of_int (m * 2 ^ n)"
    unfolding xu using pu by simp
  have "round_binary64 x = of_int (half_even (x / 2 powi u)) * 2 powi u"
    using nz by (simp add: round_binary64_def u_def)
  also have "\<dots> = real_of_int (m * 2 ^ n) * 2 powi u"
    by (simp only: q half_even_of_int)
  also have "\<dots> = x" by (simp only: xu)
  finally have r: "round_binary64 x = x" .
  have "\<bar>x\<bar> < 2 powi (e + 53)" by (rule lt)
  also have "\<dots> \<le> 2 powi 1023" using e(2) by (intro power_int_increasing) simp_all
  also have "\<dots> < 2 ^ 1024" by simp
  finally show ?thesis by (simp add: to_float_def r Let_def)
qed

lemma to_float_of_int:
  assumes "\<bar>n\<bar> < 2 ^ 53"
  shows "to_float (of_int n) = Fin (of_int n)"
  using assms by (intro to_float_exact [where m = n and e = 0]) simp_all

lemma to_float_0: "to_float 0 = Fin 0"
  by (simp add: to_float_def round_binary64_def)

lemma to_float_1: "to_float 1 = Fin 1"
  using to_float_of_int [of 1] by simp

lemma to_float_numeral:
  "(numeral n :: int) < 2 ^ 53 \<Longrightarrow> to_float (numeral n) = Fin (numeral n)"
  using to_float_of_int [of "numeral n"] by simp

lemma to_float_neg_numeral:
  "(numeral n :: int) < 2 ^ 53 \<Longrightarrow> to_float (- numeral n) = Fin (- numeral n)"
  using to_float_of_int [of "- numeral n"] by simp

lemmas to_float_ints = to_float_0 to_float_1 to_float_numeral to_float_neg_numeral

lemma tenth_eq: "tenth = Fin (3602879701896397 / 2 ^ 55)"
  unfolding tenth_def
  using to_float_normal [of "- 4" "1 / 10" 7205759403792794]
  by (simp add: power_int_minus half_even_def Let_def)

lemma sqrt_between:
  assumes "0 \<le> lo" "lo * lo < y" "y < hi * hi" "0 \<le> hi"
  shows "lo < sqrt y \<and> sqrt y < hi"
proof -
  have "lo\<^sup>2 < y" "y < hi\<^sup>2" using assms by (simp_all add: power2_eq_square)
  then show ?thesis using assms(4) by (simp add: real_less_rsqrt real_less_lsqrt)
qed

text \<open>
  The floats of the run with centres \<^verbatim>\<open>9.99\<close> apart: the literal, its square and
  the root of the square, which is the literal again.
\<close>

lemma run_999:
  fixes X R :: real
  assumes X_def: "X = 5623870034678907 / 2 ^ 49" and R_def: "R = 7022807705805285 / 2 ^ 46"
  shows "to_float (999 / 100) = Fin X" "to_float (- X) = Fin (- X)" "to_float (X * X) = Fin R"
    "to_float R = Fin R" "to_float (sqrt R) = Fin X" "X < 10" "\<not> R < 0"
proof -
  show "to_float (999 / 100) = Fin X"
    using to_float_normal [of 3 "999 / 100" 5623870034678907]
    by (simp add: X_def power_int_minus half_even_def Let_def)
  show "to_float (- X) = Fin (- X)"
    by (rule to_float_exact [where m = "- 5623870034678907" and e = "- 49"])
      (simp_all add: X_def power_int_minus)
  show "to_float (X * X) = Fin R"
    using to_float_normal [of 6 "X * X" 7022807705805285]
    by (simp add: X_def R_def power_int_minus half_even_def Let_def)
  show "to_float R = Fin R"
    by (rule to_float_exact [where m = 7022807705805285 and e = "- 46"])
      (simp_all add: R_def power_int_minus)
  have eight: "8 < sqrt R \<and> sqrt R < 16"
    by (rule sqrt_between) (simp_all add: R_def)
  have "5623870034678907 - 1 / 2 < sqrt (R * 2 ^ 98) \<and> sqrt (R * 2 ^ 98) < 5623870034678907 + 1 / 2"
    by (rule sqrt_between) (simp_all add: R_def)
  then have near: "real_of_int 5623870034678907 - 1 / 2 < sqrt R / 2 powi (- 49)"
    "sqrt R / 2 powi (- 49) < real_of_int 5623870034678907 + 1 / 2"
    by (simp_all add: real_sqrt_mult power_int_minus)
  have "half_even (sqrt R / 2 powi (3 - 52)) = 5623870034678907"
    using half_even_near [OF near] by simp
  moreover have "\<bar>sqrt R\<bar> = sqrt R" using eight by linarith
  ultimately show "to_float (sqrt R) = Fin X"
    using to_float_normal [of 3 "sqrt R" 5623870034678907] eight
    by (simp add: X_def power_int_minus)
  show "X < 10" by (simp add: X_def)
  show "\<not> R < 0" by (simp add: R_def)
qed

text \<open>
  The floats of the run with radii \<open>2 ^ 53\<close> and \<open>1\<close>: the sum of the radii is
  rounded back to \<open>2 ^ 53\<close>.
\<close>

lemma run_2_53:
  fixes P :: real
  assumes P_def: "P = 2 ^ 53"
  shows "to_float P = Fin P" "to_float (- P) = Fin (- P)" "to_float (P * P) = Fin (P * P)"
    "to_float (P + 1) = Fin P"
proof -
  show "to_float P = Fin P"
    by (rule to_float_exact [where m = 1 and e = 53]) (simp_all add: P_def)
  show "to_float (- P) = Fin (- P)"
    by (rule to_float_exact [where m = "- 1" and e = 53]) (simp_all add: P_def)
  show "to_float (P * P) = Fin (P * P)"
    by (rule to_float_exact [where m = 1 and e = 106]) (simp_all add: P_def)
  show "to_float (P + 1) = Fin P"
    using to_float_normal [of 53 "P + 1" "2 ^ 52"]
    by (simp add: P_def half_even_def Let_def)
qed

section \<open>Collision: circles and mixed pairs\<close>

text \<open>
  C4 as stated fails: for circles of radii \<open>2 ^ 53\<close> and \<open>1\<close> whose centres are
  \<open>2 ^ 53\<close> apart, the distance is strictly less than the sum of the radii, and
  \<^verbatim>\<open>collides_with\<close> is false: the float sum of the radii is \<open>2 ^ 53\<close> again.
\<close>

theorem circle_rounding_counterexample:
  "collides_with binary64 Rect_of_floats overlap (circle_at 0 0 (2 ^ 53)) (circle_at (2 ^ 53) 0 1) =
     Inr False \<and>
   dist (Complex 0 0) (Complex (2 ^ 53) 0) < 2 ^ 53 + 1"
proof -
  define P :: real where "P = 2 ^ 53"
  note run = run_2_53 [OF P_def]
  have n: "(9007199254740992::real) = P" by (simp add: P_def)
  have lit: "to_float 9007199254740992 = Fin P" by (simp only: n run)
  have p: "0 \<le> P" by (simp add: P_def)
  then have c: "collides_with binary64 Rect_of_floats overlap
      (circle_at 0 0 (2 ^ 53)) (circle_at (2 ^ 53) 0 1) = Inr False"
    by (simp add: circle_at_def float_Entity_def binary64_def to_float_ints lit run)
  have d: "dist (Complex 0 0) (Complex P 0) < P + 1"
    using p by (simp add: dist_complex_def cmod_def)
  show ?thesis using c d [unfolded P_def] by (rule conjI)
qed

text \<open>
  C4, amended. \<^verbatim>\<open>collides_with\<close> on two circle colliders compares, strictly, the
  number Python computes for \<^verbatim>\<open>sqrt(dx*dx + dy*dy)\<close> with the number it computes for
  the sum of the radii. Whenever each of these operations returns the exact result on the
  given colliders (\<open>val\<close> gives the value of a number), the result is true exactly
  when the Euclidean distance between the positions of the two entities (here the
  distance of two points of the complex plane) is strictly less than the sum of the
  radii. In float arithmetic, circles of radius 5 whose centres are exactly 10 apart,
  along an axis or not, do not collide; with centres 9.99 apart they do.
\<close>

theorem circle_collides_iff_closer_than_radii:
  fixes val :: "'v \<Rightarrow> real"
  assumes "num_sub ar (e_x a) (e_x b) = Inr dx" "val dx = val (e_x a) - val (e_x b)"
    and "num_sub ar (e_y a) (e_y b) = Inr dy" "val dy = val (e_y a) - val (e_y b)"
    and "num_mul ar dx dx = Inr dx2" "val dx2 = val dx * val dx"
    and "num_mul ar dy dy = Inr dy2" "val dy2 = val dy * val dy"
    and "num_add ar dx2 dy2 = Inr sum2" "val sum2 = val dx2 + val dy2"
    and "math_sqrt ar sum2 = Inr distance" "val distance = sqrt (val sum2)"
    and "num_add ar r r' = Inr radii" "val radii = val r + val r'"
    and "num_lt ar distance radii = (val distance < val radii)"
  shows "collides_with ar pygame_Rect cr (CircleCollider a ox oy r) (CircleCollider b ox' oy' r') =
           Inr (dist (Complex (val (e_x a)) (val (e_y a))) (Complex (val (e_x b)) (val (e_y b)))
                  < val r + val r') \<and>
         collides_with binary64 float_Rect cr' (circle_at 0 0 5) (circle_at 10 0 5) = Inr False \<and>
         collides_with binary64 float_Rect cr' (circle_at 1 2 5) (circle_at 7 10 5) = Inr False \<and>
         collides_with binary64 float_Rect cr' (circle_at 0 0 5) (circle_at (999 / 100) 0 5) =
           Inr True"
proof (intro conjI)
  show "collides_with ar pygame_Rect cr (CircleCollider a ox oy r) (CircleCollider b ox' oy' r') =
           Inr (dist (Complex (val (e_x a)) (val (e_y a))) (Complex (val (e_x b)) (val (e_y b)))
                  < val r + val r')"
    using assms by (simp add: dist_complex_def cmod_def power2_eq_square)
  show "collides_with binary64 float_Rect cr' (circle_at 0 0 5) (circle_at 10 0 5) = Inr False"
    by (simp add: circle_at_def float_Entity_def binary64_def to_float_ints)
  show "collides_with binary64 float_Rect cr' (circle_at 1 2 5) (circle_at 7 10 5) = Inr False"
    by (simp add: circle_at_def float_Entity_def binary64_def to_float_ints)
  define X :: real where "X = 5623870034678907 / 2 ^ 49"
  define R :: real where "R = 7022807705805285 / 2 ^ 46"
  note run = run_999 [OF X_def R_def]
  show "collides_with binary64 float_Rect cr' (circle_at 0 0 5) (circle_at (999 / 100) 0 5) =
           Inr True"
    by (simp add: circle_at_def float_Entity_def binary64_def to_float_ints run)
qed

theorem circle_collides_iff_closer_than_radii_witness:
  "collides_with binary64 Rect_of_floats overlap (circle_at 0 0 5) (circle_at 3 4 1) =
     Inr (dist (Complex 0 0) (Complex 3 4) < 5 + 1) \<and>
   dist (Complex 0 0) (Complex 3 4) < 5 + 1 \<and>
   num_sub binary64 (to_float 0) (to_float 3) = Inr (Fin (- 3)) \<and>
   num_mul binary64 (Fin (- 3)) (Fin (- 3)) = Inr (Fin 9) \<and>
   math_sqrt binary64 (Fin 25) = Inr (Fin 5) \<and>
   num_lt binary64 (Fin 5) (Fin 6)"
proof -
  have h: "num_sub binary64 (e_x (float_Entity 0 0)) (e_x (float_Entity 3 4)) = Inr (Fin (- 3))"
    "float_val (Fin (- 3)) = float_val (e_x (float_Entity 0 0)) - float_val (e_x (float_Entity 3 4))"
    "num_sub binary64 (e_y (float_Entity 0 0)) (e_y (float_Entity 3 4)) = Inr (Fin (- 4))"
    "float_val (Fin (- 4)) = float_val (e_y (float_Entity 0 0)) - float_val (e_y (float_Entity 3 4))"
    "num_mul binary64 (Fin (- 3)) (Fin (- 3)) = Inr (Fin 9)"
    "float_val (Fin 9) = float_val (Fin (- 3)) * float_val (Fin (- 3))"
    "num_mul binary64 (Fin (- 4)) (Fin (- 4)) = Inr (Fin 16)"
    "float_val (Fin 16) = float_val (Fin (- 4)) * float_val (Fin (- 4))"
    "num_add binary64 (Fin 9) (Fin 16) = Inr (Fin 25)"
    "float_val (Fin 25) = float_val (Fin 9) + float_val (Fin 16)"
    "math_sqrt binary64 (Fin 25) = Inr (Fin 5)"
    "float_val (Fin 5) = sqrt (float_val (Fin 25))"
    "num_add binary64 (to_float 5) (to_float 1) = Inr (Fin 6)"
    "float_val (Fin 6) = float_val (to_float 5) + float_val (to_float 1)"
    "num_lt binary64 (Fin 5) (Fin 6) = (float_val (Fin 5) < float_val (Fin 6))"
    by (simp_all add: float_Entity_def binary64_def to_float_ints)
  have s: "dist (Complex 0 0) (Complex 3 4) = 5"
    by (simp add: dist_complex_def cmod_def)
  have e: "float_val (e_x (float_Entity 0 0)) = 0" "float_val (e_y (float_Entity 0 0)) = 0"
    "float_val (e_x (float_Entity 3 4)) = 3" "float_val (e_y (float_Entity 3 4)) = 4"
    "float_val (to_float 5) = 5" "float_val (to_float 1) = 1"
    by (simp_all add: float_Entity_def to_float_ints)
  have "collides_with binary64 Rect_of_floats overlap
      (CircleCollider (float_Entity 0 0) (Fin 0) (Fin 0) (to_float 5))
      (CircleCollider (float_Entity 3 4) (Fin 0) (Fin 0) (to_float 1)) =
      Inr (dist (Complex (float_val (e_x (float_Entity 0 0))) (float_val (e_y (float_Entity 0 0))))
             (Complex (float_val (e_x (float_Entity 3 4))) (float_val (e_y (float_Entity 3 4))))
           < float_val (to_float 5) + float_val (to_float 1))"
    by (rule circle_collides_iff_closer_than_radii [OF h, THEN conjunct1])
  then have "collides_with binary64 Rect_of_floats overlap (circle_at 0 0 5) (circle_at 3 4 1) =
     Inr (dist (Complex 0 0) (Complex 3 4) < 5 + 1)"
    by (simp only: e circle_at_def)
  then show ?thesis using h(5,11,15) by (simp add: s to_float_ints binary64_def)
qed

text \<open>
  C5. A box against a circle, and a circle against a box, is the value \<open>False\<close>,
  not an error, wherever the two entities are, whatever Python's arithmetic does and
  whatever \<^verbatim>\<open>pygame.Rect\<close> and \<^verbatim>\<open>colliderect\<close> do.
\<close>

theorem box_circle_never_collide:
  "collides_with ar pygame_Rect cr (BoxCollider a ox oy w h) (CircleCollider b ox' oy' r) =
     Inr False \<and>
   collides_with ar pygame_Rect cr (CircleCollider b ox' oy' r) (BoxCollider a ox oy w h) =
     Inr False"
  by simp

lemma py_int_of_int: "py_int (real_of_int n) = n"
  by (simp add: py_int_def)

text \<open>The rectangle of a circle collider with integer position, offsets and radius.\<close>

lemma circle_bounds_int:
  assumes "\<bar>x\<bar> \<le> 2 ^ 28" "\<bar>y\<bar> \<le> 2 ^ 28" "\<bar>ox\<bar> \<le> 2 ^ 29" "\<bar>oy\<bar> \<le> 2 ^ 29" "\<bar>r\<bar> \<le> 2 ^ 28"
  shows "get_bounds binary64 Rect_of_floats
           (CircleCollider (float_Entity (of_int x) (of_int y)) (Fin (of_int ox)) (Fin (of_int oy))
              (Fin (of_int r))) =
         Inr (Rect (x + ox - r) (y + oy - r) (r * 2) (r * 2))"
proof -
  have i: "to_float (real_of_int x) = Fin (real_of_int x)"
    "to_float (real_of_int y) = Fin (real_of_int y)"
    using assms by (simp_all add: to_float_of_int)
  have a: "to_float (real_of_int x + real_of_int ox) = Fin (real_of_int (x + ox))"
    "to_float (real_of_int y + real_of_int oy) = Fin (real_of_int (y + oy))"
    using assms to_float_of_int [of "x + ox"] to_float_of_int [of "y + oy"] by simp_all
  have b: "to_float (real_of_int (x + ox) + - real_of_int r) = Fin (real_of_int (x + ox - r))"
    "to_float (real_of_int (y + oy) + - real_of_int r) = Fin (real_of_int (y + oy - r))"
    using assms to_float_of_int [of "x + ox - r"] to_float_of_int [of "y + oy - r"] by simp_all
  have c: "to_float (real_of_int r * 2) = Fin (real_of_int (r * 2))"
    using assms to_float_of_int [of "r * 2"] by simp
  have d: "c_int (x + ox - r)" "c_int (y + oy - r)" "c_int (r * 2)"
    using assms by (auto simp add: c_int_def abs_le_iff)
  have two: "num_int binary64 2 = Fin 2" by (simp add: binary64_def to_float_ints)
  have "get_bounds binary64 Rect_of_floats
           (CircleCollider (float_Entity (of_int x) (of_int y)) (Fin (of_int ox)) (Fin (of_int oy))
              (Fin (of_int r))) =
        Rect_of_floats (Fin (real_of_int (x + ox - r))) (Fin (real_of_int (y + oy - r)))
          (Fin (real_of_int (r * 2))) (Fin (real_of_int (r * 2)))"
    unfolding get_bounds.simps two
    by (simp only: binary64_def float_Entity_def i a b c py_arith.simps entity.simps
        bind_err.simps fl_add.simps fl_neg.simps fl_mul.simps)
  also have "\<dots> = Inr (Rect (x + ox - r) (y + oy - r) (r * 2) (r * 2))"
    using d by (simp only: Rect_of_floats_def float_c_int.simps py_int_of_int if_True
        bind_err.simps)
  finally show ?thesis .
qed

text \<open>
  C10. The result for two circle colliders is the same for all offsets of either
  collider, whatever the arithmetic. The rectangle of \<^verbatim>\<open>get_bounds\<close> does depend on
  them: for integer-valued floats of magnitude up to \<open>2 ^ 28\<close> as position, offsets,
  radius and change of the offsets, the rectangle moves by exactly the change of the
  offsets, with its size unchanged.
\<close>

theorem circle_collision_ignores_offsets:
  "collides_with ar pygame_Rect cr (CircleCollider a ox oy r) (CircleCollider b ox' oy' r') =
     collides_with ar pygame_Rect cr (CircleCollider a px py r) (CircleCollider b px' py' r') \<and>
   ((\<forall>v \<in> {x, y, offx, offy, rad, dx, dy}. \<bar>v\<bar> \<le> 2 ^ 28) \<longrightarrow>
      get_bounds binary64 Rect_of_floats
        (CircleCollider (float_Entity (of_int x) (of_int y)) (Fin (of_int offx)) (Fin (of_int offy))
           (Fin (of_int rad))) =
        Inr (Rect (x + offx - rad) (y + offy - rad) (rad * 2) (rad * 2)) \<and>
      get_bounds binary64 Rect_of_floats
        (CircleCollider (float_Entity (of_int x) (of_int y)) (Fin (of_int (offx + dx)))
           (Fin (of_int (offy + dy))) (Fin (of_int rad))) =
        Inr (Rect (x + offx - rad + dx) (y + offy - rad + dy) (rad * 2) (rad * 2)))"
proof (intro conjI impI)
  show "collides_with ar pygame_Rect cr (CircleCollider a ox oy r) (CircleCollider b ox' oy' r') =
     collides_with ar pygame_Rect cr (CircleCollider a px py r) (CircleCollider b px' py' r')"
    by simp
next
  assume "\<forall>v \<in> {x, y, offx, offy, rad, dx, dy}. \<bar>v\<bar> \<le> 2 ^ 28"
  then have s: "\<bar>x\<bar> \<le> 2 ^ 28" "\<bar>y\<bar> \<le> 2 ^ 28" "\<bar>offx\<bar> \<le> 2 ^ 28" "\<bar>offy\<bar> \<le> 2 ^ 28"
    "\<bar>rad\<bar> \<le> 2 ^ 28" "\<bar>dx\<bar> \<le> 2 ^ 28" "\<bar>dy\<bar> \<le> 2 ^ 28"
    by simp_all
  then have w: "\<bar>offx\<bar> \<le> 2 ^ 29" "\<bar>offy\<bar> \<le> 2 ^ 29" "\<bar>offx + dx\<bar> \<le> 2 ^ 29" "\<bar>offy + dy\<bar> \<le> 2 ^ 29"
    by simp_all
  show "get_bounds binary64 Rect_of_floats
        (CircleCollider (float_Entity (of_int x) (of_int y)) (Fin (of_int offx)) (Fin (of_int offy))
           (Fin (of_int rad))) =
        Inr (Rect (x + offx - rad) (y + offy - rad) (rad * 2) (rad * 2))"
    using s(1,2) w(1,2) s(5) by (rule circle_bounds_int)
  have m: "x + (offx + dx) - rad = x + offx - rad + dx" "y + (offy + dy) - rad = y + offy - rad + dy"
    by simp_all
  show "get_bounds binary64 Rect_of_floats
        (CircleCollider (float_Entity (of_int x) (of_int y)) (Fin (of_int (offx + dx)))
           (Fin (of_int (offy + dy))) (Fin (of_int rad))) =
        Inr (Rect (x + offx - rad + dx) (y + offy - rad + dy) (rad * 2) (rad * 2))"
    using circle_bounds_int [OF s(1,2) w(3,4) s(5)] by (simp only: m)
qed

theorem circle_collision_ignores_offsets_witness:
  "\<bar>0 :: int\<bar> \<le> 2 ^ 28 \<and> \<bar>5 :: int\<bar> \<le> 2 ^ 28 \<and> \<bar>3 :: int\<bar> \<le> 2 ^ 28 \<and> \<bar>4 :: int\<bar> \<le> 2 ^ 28 \<and>
   get_bounds binary64 Rect_of_floats (circle_at 0 0 5) = Inr (Rect (- 5) (- 5) 10 10) \<and>
   get_bounds binary64 Rect_of_floats (CircleCollider (float_Entity 0 0) (Fin 3) (Fin 4) (Fin 5)) =
     Inr (Rect (- 2) (- 1) 10 10)"
proof -
  have r: "\<forall>v \<in> {0, 0, 0, 0, 5, 3, 4 :: int}. \<bar>v\<bar> \<le> 2 ^ 28" by simp
  show ?thesis
    using circle_collision_ignores_offsets
      [where x = 0 and y = 0 and offx = 0 and offy = 0 and rad = 5 and dx = 3 and dy = 4,
        THEN conjunct2, THEN mp, OF r]
    by (simp add: circle_at_def to_float_ints)
qed

section \<open>Scene: one pass over the entities\<close>

lemma for_entity_in_step:
  "i < length (entities sc) \<Longrightarrow>
   for_entity_in body i called sc =
     for_entity_in body (Suc i) (called @ [entities sc ! i]) (body (entities sc ! i) sc)"
  by (subst for_entity_in.simps) simp


text \<open>
  While the listed entities are kept, the pass has called the first \<open>i\<close> of them, in
  order, and stands at index \<open>i\<close>.
\<close>

lemma for_entity_in_listed:
  assumes keep: "keeps_listed body sc" and i: "i \<le> length (entities sc)"
  shows "for_entity_in body 0 [] sc =
           for_entity_in body i (take i (entities sc)) (fold body (take i (entities sc)) sc)"
  using i
proof (induction i)
  case 0
  show ?case by simp
next
  case (Suc i)
  let ?es = "entities sc"
  let ?s = "fold body (take i ?es) sc"
  have lt: "i < length ?es" using Suc.prems by simp
  have kept: "take (length ?es) (entities ?s) = ?es"
  proof (cases i)
    case 0
    then show ?thesis by simp
  next
    case (Suc j)
    then have "j \<in> {..<length ?es}" using lt by simp
    with keep show ?thesis unfolding keeps_listed_def Suc by blast
  qed
  then have len: "i < length (entities ?s)"
    using lt by (metis length_take min_less_iff_conj)
  have "entities ?s ! i = take (length ?es) (entities ?s) ! i" using lt by simp
  then have nth: "entities ?s ! i = ?es ! i" by (simp only: kept)
  have tk: "take (Suc i) ?es = take i ?es @ [?es ! i]"
    using lt by (rule take_Suc_conv_app_nth)
  have "for_entity_in body 0 [] sc = for_entity_in body i (take i ?es) ?s"
    using Suc.IH lt by simp
  also have "\<dots> = for_entity_in body (Suc i) (take i ?es @ [entities ?s ! i])
                      (body (entities ?s ! i) ?s)"
    using len by (rule for_entity_in_step)
  also have "\<dots> = for_entity_in body (Suc i) (take (Suc i) ?es)
                      (fold body (take (Suc i) ?es) sc)"
    by (simp add: nth tk)
  finally show ?case .
qed

lemma for_entity_in_all_listed:
  assumes "keeps_listed body sc"
  shows "for_entity_in body 0 [] sc =
           for_entity_in body (length (entities sc)) (entities sc) (fold body (entities sc) sc)"
  using for_entity_in_listed [OF assms, of "length (entities sc)"] by simp

text \<open>
  A pass only ever adds to the calls it has recorded: whatever it returns starts with
  the calls made so far.
\<close>

lemma for_entity_in_extends:
  assumes "for_entity_in body i called sc = Some r"
  shows "take (length called) (fst r) = called"
proof (rule for_entity_in.raw_induct
    [where P = "\<lambda>body i called sc r. take (length called) (fst r) = called", OF _ assms])
  fix f :: "(nat \<Rightarrow> 'a scene \<Rightarrow> 'a scene) \<Rightarrow> nat \<Rightarrow> nat list \<Rightarrow> 'a scene \<Rightarrow> (nat list \<times> 'a scene) option"
  fix body i called sc r
  assume ih: "\<And>body i called sc r. f body i called sc = Some r \<Longrightarrow>
      take (length called) (fst r) = called"
  assume eq: "(if i < length (entities sc)
      then f body (Suc i) (called @ [entities sc ! i]) (body (entities sc ! i) sc)
      else Some (called, sc)) = Some r"
  show "take (length called) (fst r) = called"
  proof (cases "i < length (entities sc)")
    case True
    let ?c = "called @ [entities sc ! i]"
    have "f body (Suc i) ?c (body (entities sc ! i) sc) = Some r"
      using eq True by simp
    then have "take (length ?c) (fst r) = ?c" by (rule ih)
    then have "take (length called) (take (length ?c) (fst r)) = take (length called) ?c"
      by simp
    then show ?thesis by (simp add: min_def)
  next
    case False
    with eq show ?thesis by auto
  qed
qed

text \<open>
  So when the listed entities are kept and \<^verbatim>\<open>Scene.update\<close> returns, the calls it
  made begin with the \<open>N\<close> listed entities, in list order.
\<close>

lemma scene_update_calls_listed_first:
  assumes keep: "keeps_listed (\<lambda>e. entity_update e dt) sc"
    and ret: "scene_update entity_update sc dt = Some (calls, sc')"
  shows "take (length (entities sc)) calls = entities sc"
proof -
  have "for_entity_in (\<lambda>e. entity_update e dt) (length (entities sc)) (entities sc)
          (fold (\<lambda>e. entity_update e dt) (entities sc) sc) = Some (calls, sc')"
    using ret for_entity_in_all_listed [OF keep] by (simp add: scene_update_def)
  then show ?thesis by (rule for_entity_in_extends [where r = "(calls, sc')", simplified])
qed





section \<open>UI: button and vertical layout\<close>








text \<open>
  C7. A panel with exactly two children, of heights 20 and 30, and a vertical layout of
  spacing 5: after \<^verbatim>\<open>update\<close> both children have local x = 0, the first is centred
  at y = -17.5 and the second at y = 12.5, so that the top edge of the second is 5 below
  the bottom edge of the first, and the top of the first and the bottom of the second
  are opposite (-27.5 and 27.5): the stack is centred on the panel's local origin.
\<close>

theorem vertical_layout_two_children:
  assumes "children (st (panel l)) = [c1, c2]" "e_height (st c1) = 20" "e_height (st c2) = 30"
    "spacing l = 5"
  shows "let st' = vertical_layout_update st l in
     e_x (st' c1) = 0 \<and> e_x (st' c2) = 0 \<and>
     e_height (st' c1) = 20 \<and> e_height (st' c2) = 30 \<and>
     e_y (st' c1) = - 35 / 2 \<and> e_y (st' c2) = 25 / 2 \<and>
     (e_y (st' c2) - e_height (st' c2) / 2) - (e_y (st' c1) + e_height (st' c1) / 2) = 5 \<and>
     (e_y (st' c1) - e_height (st' c1) / 2) + (e_y (st' c2) + e_height (st' c2) / 2) = 0"
proof -
  have "c1 \<noteq> c2" using assms by auto
  then show ?thesis using assms
    by (simp add: vertical_layout_update_def Let_def)
qed

theorem vertical_layout_two_children_witness:
  "children (stacked (panel \<lparr>panel = 0, spacing = 5\<rparr>)) = [1, 2] \<and>
   e_height (stacked 1) = 20 \<and> e_height (stacked 2) = 30 \<and>
   e_y (vertical_layout_update stacked \<lparr>panel = 0, spacing = 5\<rparr> 1) = - 35 / 2 \<and>
   e_y (vertical_layout_update stacked \<lparr>panel = 0, spacing = 5\<rparr> 2) = 25 / 2 \<and>
   e_x (vertical_layout_update stacked \<lparr>panel = 0, spacing = 5\<rparr> 1) = 0 \<and>
   e_x (vertical_layout_update stacked \<lparr>panel = 0, spacing = 5\<rparr> 2) = 0"
  using vertical_layout_two_children [of stacked "\<lparr>panel = 0, spacing = 5\<rparr>" 1 2]
  by (simp add: stacked_def UIElement_def Let_def)


section \<open>Animation: one frame per update\<close>

lemma list_getitem_in_range:
  "0 \<le> i \<Longrightarrow> i < int (length xs) \<Longrightarrow> list_getitem xs i = Inr (xs ! nat i)"
  by (simp add: list_getitem_def)

lemma as_update_playing:
  assumes "current_animation s = Some name" "name \<noteq> []" "animations s name = Some a"
    "frame_count a = 4" "is_looping a" "is_playing a"
  shows "as_update ar s dt =
     bind_err (num_add ar (time_accumulated a) dt) (\<lambda>acc.
       let a' = (if num_ge ar acc (frame_duration a)
                 then a\<lparr>time_accumulated := num_int ar 0,
                        current_frame := (if 4 \<le> current_frame a + 1 then 0 else current_frame a + 1)\<rparr>
                 else a\<lparr>time_accumulated := acc\<rparr>)
       in bind_err (list_getitem (frames a) (current_frame a'))
            (\<lambda>r. Inr (s\<lparr>animations := (animations s)(name \<mapsto> a'), src_rect := Some r\<rparr>)))"
proof (cases "num_add ar (time_accumulated a) dt")
  case (Inl err)
  then show ?thesis using assms by (simp add: as_update_def)
next
  case (Inr acc)
  show ?thesis
  proof (cases "num_ge ar acc (frame_duration a)")
    case True
    then show ?thesis using assms Inr by (simp add: as_update_def Let_def)
  next
    case False
    then show ?thesis using assms Inr by (simp add: as_update_def Let_def)
  qed
qed

text \<open>
  C3 as stated fails for a clip registered under the empty name: it is the current clip
  and is playing, and \<^verbatim>\<open>update\<close> returns without touching it, because the empty
  string counts as no current animation.
\<close>

theorem animation_empty_name_counterexample:
  "current_animation nameless = Some [] \<and>
   map_option is_playing (animations nameless []) = Some True \<and>
   map_option frame_count (animations nameless []) = Some 4 \<and>
   active_frame nameless = Some 0 \<and>
   as_update binary64 nameless tenth = Inr nameless \<and>
   frames_after binary64 nameless [tenth, tenth, tenth, tenth, tenth] =
     Inr [Some 0, Some 0, Some 0, Some 0, Some 0]"
  by (simp add: nameless_def Animation_def add_animation_def play_animation_def
      AnimatedSprite_def Let_def as_update_def active_frame_def)

text \<open>
  C3, amended. A sprite whose current clip has a non-empty name, 4 frames, loops and is
  playing: \<^verbatim>\<open>update\<close> adds the delta time to the accumulator; if the sum, as Python
  computes it, is at least the frame duration, the accumulator becomes 0 and the frame
  index moves on by one, whatever the delta time was, and from 3 back to 0; otherwise
  the frame index stays. The source rectangle becomes the frame of the new index. With
  four frames, the frame index 0, the accumulator 0 and a frame duration \<open>d\<close> that is
  a float (adding it to 0 gives \<open>d\<close>, and \<open>d >= d\<close>), as the float 0.1 is, five
  updates by \<open>d\<close> show the frames 1, 2, 3, 0, 1.
\<close>

theorem animation_advances_one_frame:
  assumes "current_animation s = Some name" "name \<noteq> []" "animations s name = Some a"
    "frame_count a = 4" "is_looping a" "is_playing a"
  shows "as_update ar s dt =
     bind_err (num_add ar (time_accumulated a) dt) (\<lambda>acc.
       let a' = (if num_ge ar acc (frame_duration a)
                 then a\<lparr>time_accumulated := num_int ar 0,
                        current_frame := (if 4 \<le> current_frame a + 1 then 0 else current_frame a + 1)\<rparr>
                 else a\<lparr>time_accumulated := acc\<rparr>)
       in bind_err (list_getitem (frames a) (current_frame a'))
            (\<lambda>r. Inr (s\<lparr>animations := (animations s)(name \<mapsto> a'), src_rect := Some r\<rparr>))) \<and>
     (length (frames a) = 4 \<and> current_frame a = 0 \<and> time_accumulated a = num_int ar 0 \<and>
      frame_duration a = d \<and> num_add ar (num_int ar 0) d = Inr d \<and> num_ge ar d d \<longrightarrow>
        frames_after ar s [d, d, d, d, d] = Inr [Some 1, Some 2, Some 3, Some 0, Some 1])"
proof (rule conjI)
  show "as_update ar s dt =
     bind_err (num_add ar (time_accumulated a) dt) (\<lambda>acc.
       let a' = (if num_ge ar acc (frame_duration a)
                 then a\<lparr>time_accumulated := num_int ar 0,
                        current_frame := (if 4 \<le> current_frame a + 1 then 0 else current_frame a + 1)\<rparr>
                 else a\<lparr>time_accumulated := acc\<rparr>)
       in bind_err (list_getitem (frames a) (current_frame a'))
            (\<lambda>r. Inr (s\<lparr>animations := (animations s)(name \<mapsto> a'), src_rect := Some r\<rparr>)))"
    using assms by (rule as_update_playing)
next
  show "length (frames a) = 4 \<and> current_frame a = 0 \<and> time_accumulated a = num_int ar 0 \<and>
      frame_duration a = d \<and> num_add ar (num_int ar 0) d = Inr d \<and> num_ge ar d d \<longrightarrow>
        frames_after ar s [d, d, d, d, d] = Inr [Some 1, Some 2, Some 3, Some 0, Some 1]"
  proof
    assume start: "length (frames a) = 4 \<and> current_frame a = 0 \<and>
      time_accumulated a = num_int ar 0 \<and> frame_duration a = d \<and>
      num_add ar (num_int ar 0) d = Inr d \<and> num_ge ar d d"
    define A where "A k = a\<lparr>time_accumulated := num_int ar 0, current_frame := k\<rparr>" for k
    define S where
      "S k = s\<lparr>animations := (animations s)(name \<mapsto> A k), src_rect := Some (frames a ! nat k)\<rparr>"
      for k
    have first: "as_update ar s d = Inr (S 1)"
      using as_update_playing [OF assms, of ar d] start
      by (simp add: S_def A_def list_getitem_in_range)
    have later: "as_update ar (S k) d = Inr (S (if k + 1 = 4 then 0 else k + 1))"
      if "0 \<le> k" "k < 4" for k
      using as_update_playing [of "S k" name "A k" ar d] that assms start
      by (simp add: S_def A_def list_getitem_in_range)
    have af: "active_frame (S k) = Some k" for k
      using assms(1) by (simp add: active_frame_def S_def A_def)
    show "frames_after ar s [d, d, d, d, d] = Inr [Some 1, Some 2, Some 3, Some 0, Some 1]"
      using first later [of 1] later [of 2] later [of 3] later [of 0] by (simp add: af)
  qed
qed

lemma walker_eq:
  "walker = (AnimatedSprite 0 0)\<lparr>animations := [''walk'' \<mapsto>
      \<lparr>sprite_sheet = ''walk.png'', frame_width = 32, frame_height = 32, frame_count = 4,
       frame_duration = tenth,
       frames = [Rect 0 0 32 32, Rect 32 0 32 32, Rect 64 0 32 32, Rect 96 0 32 32],
       current_frame = 0, time_accumulated = Fin 0, is_playing = True, is_looping = True\<rparr>],
     current_animation := Some ''walk''\<rparr>"
  by (simp add: walker_def Animation_def add_animation_def play_animation_def AnimatedSprite_def
      Let_def upto.simps binary64_def to_float_ints)

text \<open>
  The floats \<^verbatim>\<open>0.09\<close> and \<^verbatim>\<open>0.01\<close>: their float sum is less than the float
  \<^verbatim>\<open>0.1\<close>, and is added to exactly.
\<close>

lemma run_009_001:
  fixes F9 F1 S :: real
  assumes F9: "F9 = 3242591731706757 / 2 ^ 55" and F1: "F1 = 5764607523034235 / 2 ^ 59"
    and S: "S = 7205759403792793 / 2 ^ 56"
  shows "to_float (9 / 100) = Fin F9" "to_float (1 / 100) = Fin F1" "to_float F9 = Fin F9"
    "to_float (F9 + F1) = Fin S" "\<not> 3602879701896397 / 2 ^ 55 \<le> F9"
    "\<not> 3602879701896397 / 2 ^ 55 \<le> S" "F9 \<noteq> 3602879701896397 / 2 ^ 55"
    "S \<noteq> 3602879701896397 / 2 ^ 55"
proof -
  show "to_float (9 / 100) = Fin F9"
    using to_float_normal [of "- 4" "9 / 100" 6485183463413514]
    by (simp add: F9 power_int_minus half_even_def Let_def)
  show "to_float (1 / 100) = Fin F1"
    using to_float_normal [of "- 7" "1 / 100" 5764607523034235]
    by (simp add: F1 power_int_minus half_even_def Let_def)
  show "to_float F9 = Fin F9"
    by (rule to_float_exact [where m = 3242591731706757 and e = "- 55"])
      (simp_all add: F9 power_int_minus)
  show "to_float (F9 + F1) = Fin S"
    using to_float_normal [of "- 4" "F9 + F1" 7205759403792793]
    by (simp add: F9 F1 S power_int_minus half_even_def Let_def)
  show "\<not> 3602879701896397 / 2 ^ 55 \<le> F9" "\<not> 3602879701896397 / 2 ^ 55 \<le> S"
    "F9 \<noteq> 3602879701896397 / 2 ^ 55" "S \<noteq> 3602879701896397 / 2 ^ 55"
    by (simp_all add: F9 S)
qed

theorem animation_advances_one_frame_witness:
  "current_animation walker = Some ''walk'' \<and>
   map_option frame_count (animations walker ''walk'') = Some 4 \<and>
   map_option frame_duration (animations walker ''walk'') = Some tenth \<and>
   num_add binary64 (num_int binary64 0) tenth = Inr tenth \<and> num_ge binary64 tenth tenth \<and>
   frames_after binary64 walker [tenth, tenth, tenth, tenth, tenth] =
     Inr [Some 1, Some 2, Some 3, Some 0, Some 1] \<and>
   map_sum id active_frame (as_update binary64 walker (to_float 10)) = Inr (Some 1) \<and>
   map_sum id active_frame (as_update binary64 walker (to_float (9 / 100))) = Inr (Some 0)"
proof -
  define a where "a =
      \<lparr>sprite_sheet = ''walk.png'', frame_width = 32, frame_height = 32, frame_count = 4,
       frame_duration = tenth,
       frames = [Rect 0 0 32 32, Rect 32 0 32 32, Rect 64 0 32 32, Rect 96 0 32 32],
       current_frame = 0, time_accumulated = Fin 0, is_playing = True, is_looping = True\<rparr>"
  have h: "current_animation walker = Some ''walk''" "''walk'' \<noteq> []"
    "animations walker ''walk'' = Some a" "frame_count a = 4" "is_looping a" "is_playing a"
    by (simp_all add: walker_eq a_def)
  define F9 :: real where "F9 = 3242591731706757 / 2 ^ 55"
  define F1 :: real where "F1 = 5764607523034235 / 2 ^ 59"
  define S :: real where "S = 7205759403792793 / 2 ^ 56"
  note run = run_009_001 [OF F9_def F1_def S_def]
  have z: "num_int binary64 0 = Fin 0" by (simp add: binary64_def to_float_ints)
  have t: "to_float (3602879701896397 / 2 ^ 55) = Fin (3602879701896397 / 2 ^ 55)"
    by (rule to_float_exact [where m = 3602879701896397 and e = "- 55"])
      (simp_all add: power_int_minus)
  have ar: "num_add binary64 (num_int binary64 0) tenth = Inr tenth" "num_ge binary64 tenth tenth"
    "num_add binary64 (Fin 0) (to_float 10) = Inr (Fin 10)"
    "num_ge binary64 (Fin 10) tenth"
    "num_add binary64 (Fin 0) (to_float (9 / 100)) = Inr (Fin F9)"
    "\<not> num_ge binary64 (Fin F9) tenth"
    using t run by (simp_all add: binary64_def tenth_eq to_float_ints)
  have s: "length (frames a) = 4 \<and> current_frame a = 0 \<and> time_accumulated a = num_int binary64 0 \<and>
      frame_duration a = tenth \<and> num_add binary64 (num_int binary64 0) tenth = Inr tenth \<and>
      num_ge binary64 tenth tenth"
    using ar by (simp add: a_def z)
  note big = animation_advances_one_frame [OF h, of binary64 "to_float 10" tenth]
  note small = animation_advances_one_frame [OF h, of binary64 "to_float (9 / 100)" tenth]
  have r: "frames_after binary64 walker [tenth, tenth, tenth, tenth, tenth] =
     Inr [Some 1, Some 2, Some 3, Some 0, Some 1]"
    using big [THEN conjunct2] s by (rule mp)
  have b: "map_sum id active_frame (as_update binary64 walker (to_float 10)) = Inr (Some 1)"
    by (simp add: big [THEN conjunct1] a_def ar z active_frame_def h(1) list_getitem_in_range)
  have c: "map_sum id active_frame (as_update binary64 walker (to_float (9 / 100))) = Inr (Some 0)"
    by (simp add: small [THEN conjunct1] a_def ar z active_frame_def h(1) list_getitem_in_range)
  show ?thesis using h ar r b c by (simp add: a_def)
qed

text \<open>
  The model follows the rounding of the floats: after updates by \<^verbatim>\<open>0.09\<close> and
  \<^verbatim>\<open>0.01\<close> the accumulator is the float below \<^verbatim>\<open>0.1\<close>, and the frame is still
  frame 0.
\<close>

lemma frames_after_009_001:
  "frames_after binary64 walker [to_float (9 / 100), to_float (1 / 100)] = Inr [Some 0, Some 0]"
proof -
  define F9 :: real where "F9 = 3242591731706757 / 2 ^ 55"
  define F1 :: real where "F1 = 5764607523034235 / 2 ^ 59"
  define S :: real where "S = 7205759403792793 / 2 ^ 56"
  note run = run_009_001 [OF F9_def F1_def S_def]
  show ?thesis
    using run
    by (simp add: walker_eq AnimatedSprite_def as_update_def active_frame_def binary64_def
        tenth_eq to_float_ints list_getitem_in_range Let_def)
qed

section \<open>Sprite: where the image is drawn\<close>

lemma py_int_truncates:
  "\<bar>real_of_int (py_int v)\<bar> \<le> \<bar>v\<bar> \<and> \<bar>v - real_of_int (py_int v)\<bar> < 1"
  unfolding py_int_def by (simp; linarith)

lemma wrap_c_int_id: "c_int v \<Longrightarrow> wrap_c_int v = v"
  by (simp add: c_int_def wrap_c_int_def)

text \<open>
  C9 as stated fails: a visible sprite with a texture at (2.75, -1.75) is drawn centred
  at (2, -1), while the nearest pixel is (3, -2).
\<close>

theorem sprite_render_centre_counterexample:
  "e_visible off_grid_sprite \<and> texture off_grid_sprite = Some () \<and>
   sprite_render float_int_of_scaled plain_pygame off_grid_sprite =
     Inr (Some ((), Rect (- 3) (- 4) 10 6)) \<and>
   rect_center (Rect (- 3) (- 4) 10 6) = (2, - 1) \<and>
   (round (e_x off_grid_sprite), round (e_y off_grid_sprite)) = (3, - 2)"
  by (simp add: sprite_render_def render_texture_def off_grid_sprite_def plain_pygame_def
      get_rect_def set_center_def rect_center_def py_int_def round_def c_int_def wrap_c_int_def)

text \<open>
  C9, amended. Take a visible sprite with a resolved texture for which the calls that
  prepare the image return, with the image \<open>t\<close>, and whose position, cut to ints, lies
  in the range of a C int, as does the corner half the image's size before it. Then
  \<^verbatim>\<open>render\<close> blits \<open>t\<close> with the centre of the destination rectangle at
  \<^verbatim>\<open>(int(x), int(y))\<close>: each coordinate cut off toward zero, that is, the integer
  within less than 1 of the coordinate that is not larger in absolute value.
\<close>

theorem sprite_render_truncates_centre:
  assumes "e_visible s" "texture s = Some tex"
    and "render_texture int_of_scaled pg s tex = Inr t"
    and "c_int (py_int (e_x s))" "c_int (py_int (e_x s) - get_width pg t div 2)"
    and "c_int (py_int (e_y s))" "c_int (py_int (e_y s) - get_height pg t div 2)"
  shows "\<exists>r. sprite_render int_of_scaled pg s = Inr (Some (t, r)) \<and>
           r = Rect (py_int (e_x s) - get_width pg t div 2) (py_int (e_y s) - get_height pg t div 2)
                 (get_width pg t) (get_height pg t) \<and>
           rect_center r = (py_int (e_x s), py_int (e_y s)) \<and>
           \<bar>real_of_int (fst (rect_center r))\<bar> \<le> \<bar>e_x s\<bar> \<and>
           \<bar>e_x s - real_of_int (fst (rect_center r))\<bar> < 1 \<and>
           \<bar>real_of_int (snd (rect_center r))\<bar> \<le> \<bar>e_y s\<bar> \<and>
           \<bar>e_y s - real_of_int (snd (rect_center r))\<bar> < 1"
  using assms py_int_truncates [of "e_x s"] py_int_truncates [of "e_y s"]
  by (simp add: sprite_render_def get_rect_def set_center_def rect_center_def wrap_c_int_id)

theorem sprite_render_truncates_centre_witness:
  "e_visible off_grid_sprite \<and> texture off_grid_sprite = Some () \<and>
   render_texture float_int_of_scaled plain_pygame off_grid_sprite () = Inr () \<and>
   c_int (py_int (e_x off_grid_sprite)) \<and> c_int (py_int (e_y off_grid_sprite)) \<and>
   (\<exists>r. sprite_render float_int_of_scaled plain_pygame off_grid_sprite = Inr (Some ((), r)) \<and>
        r = Rect (- 3) (- 4) 10 6 \<and> rect_center r = (2, - 1))"
proof -
  have v: "e_visible off_grid_sprite" and t: "texture off_grid_sprite = Some ()"
    by (simp_all add: off_grid_sprite_def)
  have p: "render_texture float_int_of_scaled plain_pygame off_grid_sprite () = Inr ()"
    by (simp add: render_texture_def off_grid_sprite_def plain_pygame_def)
  have c: "c_int (py_int (e_x off_grid_sprite))"
    "c_int (py_int (e_x off_grid_sprite) - get_width plain_pygame () div 2)"
    "c_int (py_int (e_y off_grid_sprite))"
    "c_int (py_int (e_y off_grid_sprite) - get_height plain_pygame () div 2)"
    by (simp_all add: off_grid_sprite_def plain_pygame_def py_int_def c_int_def)
  show ?thesis
    using sprite_render_truncates_centre [OF v t p c] v t p c(1,3)
    by (auto simp add: off_grid_sprite_def plain_pygame_def py_int_def)
qed

end
